theory Spec2Isabelle
  imports Main
begin

section \<open>The Details panel of the grid view (dag/details/index.tsx)\<close>

text \<open>
  The component reads the current selection and the grid data, derives a handful of
  booleans from them, keeps the active tab in the \<open>tab\<close> query parameter of the URL and
  mounts one content panel per tab. The embedding below follows the component top to
  bottom: the two tab mappings, the derived booleans, the tab-change handler, the
  redirect effect, the instance that is shown, and the state handed to the child
  components.

  JavaScript values are represented as follows. An optional string (\<open>string | null |
  undefined\<close>) is a \<open>string option\<close>; \<open>null\<close> and \<open>undefined\<close> are both \<open>None\<close>, since the
  component never tells them apart. A tab index and a map index are \<open>int\<close>. A condition
  on a string (\<open>!s\<close>, \<open>s && t\<close>, \<open>s || t\<close>) tests JavaScript truthiness: an absent string
  and the empty string are both false.
\<close>

subsection \<open>Truthiness\<close>

definition truthy :: "string option \<Rightarrow> bool" where
  "truthy s = (case s of None \<Rightarrow> False | Some v \<Rightarrow> v \<noteq> [])"

definition truthyB :: "bool option \<Rightarrow> bool" where
  "truthyB b = (case b of None \<Rightarrow> False | Some v \<Rightarrow> v)"

subsection \<open>Tab name to tab index and back\<close>

text \<open>
  \<open>tabToIndex\<close> is a \<open>switch\<close> on the optional tab name and \<open>indexToTab\<close> a \<open>switch\<close> on
  the index; the cases are tried in the order of the source. Neither has a branch that
  throws.
\<close>

definition tabToIndex :: "string option \<Rightarrow> int" where
  "tabToIndex tab =
     (if tab = Some ''graph'' then 1
      else if tab = Some ''gantt'' then 2
      else if tab = Some ''code'' then 3
      else if tab = Some ''logs'' \<or> tab = Some ''mapped_tasks'' then 4
      else if tab = Some ''xcom'' then 5
      else if tab = Some ''details'' then 0
      else 0)"

definition indexToTab :: "int \<Rightarrow> bool \<Rightarrow> bool \<Rightarrow> string option" where
  "indexToTab index isTaskInstance isMappedTaskSummary =
     (if index = 1 then Some ''graph''
      else if index = 2 then Some ''gantt''
      else if index = 3 then Some ''code''
      else if index = 4 then
        (if isMappedTaskSummary then Some ''mapped_tasks''
         else if isTaskInstance then Some ''logs''
         else None)
      else if index = 5 then
        (if isTaskInstance then Some ''xcom'' else None)
      else if index = 0 then None
      else None)"

definition TAB_PARAM :: string where
  "TAB_PARAM = ''tab''"

subsection \<open>Selection, grid nodes and task instances\<close>

text \<open>
  Modelled from the spec: the types of the selection, of a grid node and of a task
  instance are declared in modules that are not among the sources. The spec's data model
  gives a selection an optional run id, task id and map index, a node its children (their
  presence makes it a group) and its \<open>isMapped\<close> flag, and a task instance its state and
  try number; the component also reads a node's \<open>instances\<close> and an instance's \<open>runId\<close>.

  The selection comes from \<open>useSelection\<close>, the node from \<open>getTask\<close> over the grid
  data, and the fetched mapped instance from \<open>useTaskInstance\<close>. Their results are
  parameters here: a \<open>selection\<close>, an optional \<open>task\<close> (the looked-up node, \<open>None\<close> when
  the lookup finds nothing) and an optional \<open>task_instance\<close>.
\<close>

record selection =
  runId :: "string option"
  taskId :: "string option"
  mapIndex :: "int option"

record task_instance =
  ti_runId :: string
  ti_state :: "string option"
  tryNumber :: "int option"

datatype task =
  Task (children: "task list option") (isMapped: "bool option") (instances: "task_instance list")

text \<open>Reading a property of \<open>undefined\<close> throws; optional chaining does not.\<close>

datatype error = TypeError

subsection \<open>The derived booleans\<close>

definition isDag :: "selection \<Rightarrow> bool" where
  "isDag sel = (\<not> truthy (runId sel) \<and> \<not> truthy (taskId sel))"

text \<open>
  \<open>runId && !taskId\<close> is a string, \<open>null\<close> or a boolean in the source; it is only ever
  used as a condition, so the model keeps its truthiness.
\<close>

definition isDagRun :: "selection \<Rightarrow> bool" where
  "isDagRun sel = (truthy (runId sel) \<and> \<not> truthy (taskId sel))"

text \<open>\<open>group?.children\<close> and \<open>group?.isMapped\<close>.\<close>

definition group_children :: "task option \<Rightarrow> task list option" where
  "group_children grp = (case grp of None \<Rightarrow> None | Some g \<Rightarrow> children g)"

definition group_isMapped :: "task option \<Rightarrow> bool option" where
  "group_isMapped grp = (case grp of None \<Rightarrow> None | Some g \<Rightarrow> isMapped g)"

text \<open>\<open>!!children\<close>: an array is truthy, also when it is empty.\<close>

definition isGroup :: "task option \<Rightarrow> bool" where
  "isGroup grp = (group_children grp \<noteq> None)"

definition isMappedTaskSummary :: "selection \<Rightarrow> task option \<Rightarrow> bool" where
  "isMappedTaskSummary sel grp =
     (truthy (taskId sel) \<and> truthy (runId sel) \<and> \<not> isGroup grp \<and>
      truthyB (group_isMapped grp) \<and> mapIndex sel = None)"

definition isTaskInstance :: "selection \<Rightarrow> task option \<Rightarrow> bool" where
  "isTaskInstance sel grp =
     (truthy (taskId sel) \<and> truthy (runId sel) \<and> \<not> isGroup grp \<and>
      \<not> isMappedTaskSummary sel grp)"

definition showTaskDetails :: "selection \<Rightarrow> bool" where
  "showTaskDetails sel = (truthy (taskId sel) \<and> \<not> truthy (runId sel))"

subsection \<open>The query parameters\<close>

text \<open>
  Modelled from the spec: \<open>URLSearchParamsWrapper\<close> (src/utils/URLSearchParamWrapper) is
  not among the sources. The spec only says that the handler sets or deletes the \<open>tab\<close>
  parameter and leaves the others untouched, so the wrapper is taken to behave as the
  browser's \<open>URLSearchParams\<close>: an ordered list of name/value pairs in which a name may
  occur more than once. \<open>get\<close> returns the first value of a name, \<open>delete\<close> removes every
  pair with the name, \<open>set\<close> overwrites the first pair with the name and removes the
  others, or appends a pair when there is none. Copying (\<open>new
  URLSearchParamsWrapper(searchParams)\<close>) yields the same list.
\<close>

type_synonym params = "(string \<times> string) list"

fun params_get :: "string \<Rightarrow> params \<Rightarrow> string option" where
  "params_get k [] = None"
| "params_get k ((k', v') # ps) = (if k' = k then Some v' else params_get k ps)"

fun params_delete :: "string \<Rightarrow> params \<Rightarrow> params" where
  "params_delete k [] = []"
| "params_delete k ((k', v') # ps) =
     (if k' = k then params_delete k ps else (k', v') # params_delete k ps)"

fun params_set :: "string \<Rightarrow> string \<Rightarrow> params \<Rightarrow> params" where
  "params_set k v [] = [(k, v)]"
| "params_set k v ((k', v') # ps) =
     (if k' = k then (k, v) # params_delete k ps else (k', v') # params_set k v ps)"

text \<open>The parameters other than \<open>k\<close>, in their order and with their values.\<close>

definition others :: "string \<Rightarrow> params \<Rightarrow> params" where
  "others k ps = filter (\<lambda>p. fst p \<noteq> k) ps"

text \<open>\<open>searchParams.get(TAB_PARAM) || undefined\<close> and \<open>tabToIndex(tab)\<close>.\<close>

definition tab :: "params \<Rightarrow> string option" where
  "tab searchParams =
     (if truthy (params_get TAB_PARAM searchParams) then params_get TAB_PARAM searchParams
      else None)"

definition tabIndex :: "params \<Rightarrow> int" where
  "tabIndex searchParams = tabToIndex (tab searchParams)"

subsection \<open>The tab-change handler\<close>

text \<open>
  The callback closes over \<open>searchParams\<close>, \<open>isTaskInstance\<close> and \<open>isMappedTaskSummary\<close>;
  its effect is the list handed to \<open>setSearchParams\<close>. \<open>if (newTab)\<close> is false for
  \<open>undefined\<close> and for the empty string.
\<close>

definition onChangeTab :: "bool \<Rightarrow> bool \<Rightarrow> params \<Rightarrow> int \<Rightarrow> params" where
  "onChangeTab isTI isMTS searchParams index =
     (case indexToTab index isTI isMTS of
        None \<Rightarrow> params_delete TAB_PARAM searchParams
      | Some newTab \<Rightarrow>
          if newTab \<noteq> [] then params_set TAB_PARAM newTab searchParams
          else params_delete TAB_PARAM searchParams)"

subsection \<open>The redirect effect\<close>

definition tabCount :: "selection \<Rightarrow> bool \<Rightarrow> int" where
  "tabCount sel isGrp =
     (if truthy (runId sel) \<and> truthy (taskId sel) \<and> \<not> isGrp then 5 else 4)"

text \<open>
  The index the effect passes to \<open>onChangeTab\<close>, or \<open>None\<close> when it does not call it.
\<close>

definition redirectEffect :: "selection \<Rightarrow> bool \<Rightarrow> int \<Rightarrow> int option" where
  "redirectEffect sel isGrp tabIdx =
     (if tabCount sel isGrp = 4 \<and> tabIdx > 3 then
        (if \<not> truthy (runId sel) \<and> truthy (taskId sel) then Some 0 else Some 1)
      else None)"

text \<open>One run of the effect on the component's state: the query parameters after it.\<close>

definition runEffect :: "selection \<Rightarrow> task option \<Rightarrow> params \<Rightarrow> params" where
  "runEffect sel grp searchParams =
     (case redirectEffect sel (isGroup grp) (tabIndex searchParams) of
        None \<Rightarrow> searchParams
      | Some i \<Rightarrow>
          onChangeTab (isTaskInstance sel grp) (isMappedTaskSummary sel grp) searchParams i)"

subsection \<open>The instance that is shown\<close>

text \<open>
  The arguments of \<open>useTaskInstance\<close>; \<open>dagId\<close> is a constant of the page and is left out.
\<close>

record task_instance_query =
  dagRunId :: string
  q_taskId :: string
  q_mapIndex :: "int option"
  enabled :: bool

text \<open>\<open>s || ""\<close>.\<close>

definition orEmpty :: "string option \<Rightarrow> string" where
  "orEmpty s = (case s of None \<Rightarrow> [] | Some v \<Rightarrow> v)"

definition useTaskInstanceArgs :: "selection \<Rightarrow> task_instance_query" where
  "useTaskInstanceArgs sel =
     \<lparr> dagRunId = orEmpty (runId sel), q_taskId = orEmpty (taskId sel),
       q_mapIndex = mapIndex sel, enabled = (mapIndex sel \<noteq> None) \<rparr>"

text \<open>\<open>group?.instances.find((ti) => ti.runId === runId)\<close>.\<close>

definition groupInstance :: "selection \<Rightarrow> task option \<Rightarrow> task_instance option" where
  "groupInstance sel grp =
     (case grp of
        None \<Rightarrow> None
      | Some g \<Rightarrow> find (\<lambda>ti. Some (ti_runId ti) = runId sel) (instances g))"

text \<open>
  \<open>instance\<close>, with the data returned by \<open>useTaskInstance\<close> as the third argument.
\<close>

definition selectedInstance ::
  "selection \<Rightarrow> task option \<Rightarrow> task_instance option \<Rightarrow> task_instance option" where
  "selectedInstance sel grp mappedTaskInstance =
     (case mapIndex sel of
        None \<Rightarrow> groupInstance sel grp
      | Some m \<Rightarrow> if m > - 1 then mappedTaskInstance else groupInstance sel grp)"

subsection \<open>The state handed to the children\<close>

text \<open>\<open>instance?.state\<close>, \<open>instance.state\<close> and \<open>instance?.tryNumber\<close>.\<close>

definition optState :: "task_instance option \<Rightarrow> string option" where
  "optState inst = (case inst of None \<Rightarrow> None | Some ti \<Rightarrow> ti_state ti)"

definition dotState :: "task_instance option \<Rightarrow> error + string option" where
  "dotState inst = (case inst of None \<Rightarrow> Inl TypeError | Some ti \<Rightarrow> Inr (ti_state ti))"

definition optTryNumber :: "task_instance option \<Rightarrow> int option" where
  "optTryNumber inst = (case inst of None \<Rightarrow> None | Some ti \<Rightarrow> tryNumber ti)"

text \<open>The \<open>state\<close> prop of \<open>MarkInstanceAs\<close>.\<close>

definition markInstanceAsState :: "task_instance option \<Rightarrow> error + string option" where
  "markInstanceAsState inst =
     (if \<not> truthy (optState inst) \<or> optState inst = Some ''none'' then Inr None
      else dotState inst)"

text \<open>The \<open>state\<close> prop of \<open>Logs\<close>.\<close>

definition logsState :: "task_instance option \<Rightarrow> error + string option" where
  "logsState inst =
     (if \<not> truthy (optState inst) \<or> optState inst = Some ''none'' then Inr None
      else dotState inst)"

section \<open>Properties\<close>

subsection \<open>The tab mappings\<close>

text \<open>
  C1. \<open>tabToIndex\<close> sends "graph" to 1, "gantt" to 2, "code" to 3, "logs" and
  "mapped_tasks" to 4, "xcom" to 5, and "details", an unset input and every other string
  to 0. The function has a value on every input (it is a total function into the
  integers; the source has no throwing branch), and that value lies between 0 and 5.
\<close>

theorem tabToIndex_table:
  "tabToIndex (Some ''graph'') = 1 \<and>
   tabToIndex (Some ''gantt'') = 2 \<and>
   tabToIndex (Some ''code'') = 3 \<and>
   tabToIndex (Some ''logs'') = 4 \<and>
   tabToIndex (Some ''mapped_tasks'') = 4 \<and>
   tabToIndex (Some ''xcom'') = 5 \<and>
   tabToIndex (Some ''details'') = 0 \<and>
   tabToIndex None = 0 \<and>
   (s \<notin> {''graph'', ''gantt'', ''code'', ''logs'', ''mapped_tasks'', ''xcom''}
      \<longrightarrow> tabToIndex (Some s) = 0) \<and>
   0 \<le> tabToIndex t \<and> tabToIndex t \<le> 5"
  by (simp add: tabToIndex_def)

theorem tabToIndex_table_witness:
  "''runs'' \<notin> {''graph'', ''gantt'', ''code'', ''logs'', ''mapped_tasks'', ''xcom''} \<and>
   tabToIndex (Some ''runs'') = 0 \<and> tabToIndex (Some []) = 0"
  using tabToIndex_table [of "''runs''" None] tabToIndex_table [of "[]" None]
  by simp

text \<open>
  C2. Whatever the two flags are, \<open>indexToTab\<close> sends 1 to "graph", 2 to "gantt" and 3 to
  "code"; 4 to "mapped_tasks" when \<open>isMappedTaskSummary\<close> holds, else to "logs" when
  \<open>isTaskInstance\<close> holds, else to unset; 5 to "xcom" when \<open>isTaskInstance\<close> holds and to
  unset otherwise; 0 and every index outside 1..5 to unset.
\<close>

theorem indexToTab_table:
  "indexToTab 1 isTI isMTS = Some ''graph'' \<and>
   indexToTab 2 isTI isMTS = Some ''gantt'' \<and>
   indexToTab 3 isTI isMTS = Some ''code'' \<and>
   indexToTab 4 isTI isMTS =
     (if isMTS then Some ''mapped_tasks'' else if isTI then Some ''logs'' else None) \<and>
   indexToTab 5 isTI isMTS = (if isTI then Some ''xcom'' else None) \<and>
   indexToTab 0 isTI isMTS = None \<and>
   (i \<notin> {1, 2, 3, 4, 5} \<longrightarrow> indexToTab i isTI isMTS = None)"
  by (simp add: indexToTab_def)

theorem indexToTab_table_witness:
  "indexToTab 4 True False = Some ''logs'' \<and> indexToTab 4 False True = Some ''mapped_tasks'' \<and>
   indexToTab 4 True True = Some ''mapped_tasks'' \<and> indexToTab 4 False False = None \<and>
   indexToTab 5 True False = Some ''xcom'' \<and> indexToTab 5 False True = None \<and>
   (7::int) \<notin> {1, 2, 3, 4, 5} \<and> indexToTab 7 True True = None \<and>
   (- 1::int) \<notin> {1, 2, 3, 4, 5} \<and> indexToTab (- 1) True False = None"
  using indexToTab_table [of True False 7] indexToTab_table [of False True 7]
    indexToTab_table [of True True 7] indexToTab_table [of False False 7]
    indexToTab_table [of True False "- 1"]
  by simp

text \<open>
  C4. On "graph", "gantt" and "code" the two mappings are inverse to each other, whatever
  the flags: \<open>indexToTab (tabToIndex name)\<close> gives the name back.
\<close>

theorem tab_round_trip:
  "name \<in> {''graph'', ''gantt'', ''code''} \<Longrightarrow>
   indexToTab (tabToIndex (Some name)) isTI isMTS = Some name"
  by (auto simp: tabToIndex_def indexToTab_def)

theorem tab_round_trip_witness:
  "''gantt'' \<in> {''graph'', ''gantt'', ''code''} \<and>
   indexToTab (tabToIndex (Some ''gantt'')) False True = Some ''gantt''"
proof -
  have h: "''gantt'' \<in> {''graph'', ''gantt'', ''code''}" by simp
  show ?thesis using h tab_round_trip [OF h, of False True] by simp
qed

text \<open>
  C9. The other direction: every tab name that \<open>indexToTab\<close> produces for an index is
  sent back to that index by \<open>tabToIndex\<close>, for every index and both flags.
\<close>

theorem index_round_trip:
  "indexToTab i isTI isMTS = Some t \<Longrightarrow> tabToIndex (Some t) = i"
  by (auto simp: tabToIndex_def indexToTab_def split: if_splits)

theorem index_round_trip_witness:
  "indexToTab 4 True False = Some ''logs'' \<and> tabToIndex (Some ''logs'') = 4 \<and>
   indexToTab 4 False True = Some ''mapped_tasks'' \<and> tabToIndex (Some ''mapped_tasks'') = 4"
proof -
  have a: "indexToTab 4 True False = Some ''logs''" by (simp add: indexToTab_def)
  have b: "indexToTab 4 False True = Some ''mapped_tasks''" by (simp add: indexToTab_def)
  show ?thesis using a b index_round_trip [OF a] index_round_trip [OF b] by simp
qed

subsection \<open>The derived booleans\<close>

text \<open>
  C3. Of the five booleans \<open>isDag\<close>, \<open>isDagRun\<close>, \<open>isMappedTaskSummary\<close>, \<open>isTaskInstance\<close>
  and \<open>showTaskDetails\<close>, the number that hold is one, except when a run and a task are
  both selected and the node is a group, where it is zero. So no two of them hold
  together. A run or a task is selected when its id is truthy, which is what the
  component tests.
\<close>

theorem selection_partition:
  "length (filter (\<lambda>b. b)
     [isDag sel, isDagRun sel, isMappedTaskSummary sel grp, isTaskInstance sel grp,
      showTaskDetails sel]) =
   (if truthy (runId sel) \<and> truthy (taskId sel) \<and> isGroup grp then 0 else 1)"
  by (auto simp: isDag_def isDagRun_def isMappedTaskSummary_def isTaskInstance_def
      showTaskDetails_def)

theorem selection_partition_witness:
  "isDag \<lparr>runId = None, taskId = None, mapIndex = None\<rparr> \<and>
   length (filter (\<lambda>b. b)
     [isDag \<lparr>runId = Some ''r1'', taskId = Some ''t1'', mapIndex = None\<rparr>,
      isDagRun \<lparr>runId = Some ''r1'', taskId = Some ''t1'', mapIndex = None\<rparr>,
      isMappedTaskSummary \<lparr>runId = Some ''r1'', taskId = Some ''t1'', mapIndex = None\<rparr>
        (Some (Task (Some []) None [])),
      isTaskInstance \<lparr>runId = Some ''r1'', taskId = Some ''t1'', mapIndex = None\<rparr>
        (Some (Task (Some []) None [])),
      showTaskDetails \<lparr>runId = Some ''r1'', taskId = Some ''t1'', mapIndex = None\<rparr>]) = 0 \<and>
   length (filter (\<lambda>b. b)
     [isDag \<lparr>runId = Some ''r1'', taskId = Some ''t1'', mapIndex = None\<rparr>,
      isDagRun \<lparr>runId = Some ''r1'', taskId = Some ''t1'', mapIndex = None\<rparr>,
      isMappedTaskSummary \<lparr>runId = Some ''r1'', taskId = Some ''t1'', mapIndex = None\<rparr>
        (Some (Task None (Some True) [])),
      isTaskInstance \<lparr>runId = Some ''r1'', taskId = Some ''t1'', mapIndex = None\<rparr>
        (Some (Task None (Some True) [])),
      showTaskDetails \<lparr>runId = Some ''r1'', taskId = Some ''t1'', mapIndex = None\<rparr>]) = 1"
  using selection_partition
    [of "\<lparr>runId = Some ''r1'', taskId = Some ''t1'', mapIndex = None\<rparr>"
      "Some (Task (Some []) None [])"]
    selection_partition
    [of "\<lparr>runId = Some ''r1'', taskId = Some ''t1'', mapIndex = None\<rparr>"
      "Some (Task None (Some True) [])"]
  by (simp add: truthy_def isGroup_def group_children_def isDag_def)

text \<open>
  C7. With a run and a task selected and a node that is mapped and not a group: without
  a map index the view is the mapped-task summary and not a task instance; with a map
  index (any, 2 for one) it is a task instance and not the summary.
\<close>

theorem mapped_summary_or_instance:
  assumes "truthy (runId sel)" and "truthy (taskId sel)" and "\<not> isGroup grp"
    and "truthyB (group_isMapped grp)"
  shows "(mapIndex sel = None \<longrightarrow> isMappedTaskSummary sel grp \<and> \<not> isTaskInstance sel grp) \<and>
         (mapIndex sel = Some m \<longrightarrow> isTaskInstance sel grp \<and> \<not> isMappedTaskSummary sel grp)"
  using assms by (simp add: isMappedTaskSummary_def isTaskInstance_def)

theorem mapped_summary_or_instance_witness:
  "isMappedTaskSummary \<lparr>runId = Some ''r1'', taskId = Some ''t1'', mapIndex = None\<rparr>
     (Some (Task None (Some True) [])) \<and>
   \<not> isTaskInstance \<lparr>runId = Some ''r1'', taskId = Some ''t1'', mapIndex = None\<rparr>
     (Some (Task None (Some True) [])) \<and>
   isTaskInstance \<lparr>runId = Some ''r1'', taskId = Some ''t1'', mapIndex = Some 2\<rparr>
     (Some (Task None (Some True) [])) \<and>
   \<not> isMappedTaskSummary \<lparr>runId = Some ''r1'', taskId = Some ''t1'', mapIndex = Some 2\<rparr>
     (Some (Task None (Some True) []))"
proof -
  let ?g = "Some (Task None (Some True) [])"
  let ?s0 = "\<lparr>runId = Some ''r1'', taskId = Some ''t1'', mapIndex = None\<rparr>"
  let ?s2 = "\<lparr>runId = Some ''r1'', taskId = Some ''t1'', mapIndex = Some 2\<rparr>"
  have g: "\<not> isGroup ?g" "truthyB (group_isMapped ?g)"
    by (simp_all add: isGroup_def group_children_def truthyB_def group_isMapped_def)
  have r0: "truthy (runId ?s0)" "truthy (taskId ?s0)" by (simp_all add: truthy_def)
  have r2: "truthy (runId ?s2)" "truthy (taskId ?s2)" by (simp_all add: truthy_def)
  show ?thesis
    using mapped_summary_or_instance [OF r0 g, of 2] mapped_summary_or_instance [OF r2 g, of 2]
    by simp
qed

subsection \<open>The query parameters\<close>

lemma others_params_delete: "others k (params_delete k ps) = others k ps"
  by (induction ps) (auto simp: others_def)

lemma others_params_set: "others k (params_set k v ps) = others k ps"
  by (induction ps) (auto simp: others_def others_params_delete [unfolded others_def])

lemma params_get_delete: "params_get k (params_delete k ps) = None"
  by (induction ps) auto

lemma params_get_set: "params_get k (params_set k v ps) = Some v"
  by (induction ps) auto

lemma params_get_delete_other:
  "k' \<noteq> k \<Longrightarrow> params_get k' (params_delete k ps) = params_get k' ps"
  by (induction ps) auto

lemma params_get_set_other:
  "k' \<noteq> k \<Longrightarrow> params_get k' (params_set k v ps) = params_get k' ps"
  by (induction ps) (auto simp: params_get_delete_other)

text \<open>After \<open>delete\<close> no pair has the name; after \<open>set\<close> exactly one has it.\<close>

lemma named_params_delete: "filter (\<lambda>p. fst p = k) (params_delete k ps) = []"
  by (induction ps) auto

lemma named_params_set: "filter (\<lambda>p. fst p = k) (params_set k v ps) = [(k, v)]"
  by (induction ps) (auto simp: named_params_delete)

subsection \<open>The tab-change handler\<close>

text \<open>\<open>indexToTab\<close> never returns the empty string, so \<open>if (newTab)\<close> only tests for unset.\<close>

lemma indexToTab_nonempty: "indexToTab i a b \<noteq> Some []"
  by (simp add: indexToTab_def)

lemma onChangeTab_set:
  "indexToTab i a b = Some t \<Longrightarrow> onChangeTab a b ps i = params_set TAB_PARAM t ps"
  using indexToTab_nonempty [of i a b] by (auto simp: onChangeTab_def)

lemma onChangeTab_delete:
  "indexToTab i a b = None \<Longrightarrow> onChangeTab a b ps i = params_delete TAB_PARAM ps"
  by (simp add: onChangeTab_def)

lemma params_get_onChangeTab:
  "params_get TAB_PARAM (onChangeTab a b ps i) = indexToTab i a b"
  by (cases "indexToTab i a b")
    (simp_all add: onChangeTab_set onChangeTab_delete params_get_set params_get_delete)

text \<open>
  C6. A change to index \<open>i\<close> leaves the query parameters with \<open>tab\<close> set to
  \<open>indexToTab i\<close> (under the current flags) when that is a tab name, as the only \<open>tab\<close>
  pair, and with no \<open>tab\<close> pair when it is unset. Index 0 always deletes, and "details"
  is never the value written. The pairs with any other name are the same before and
  after, in order and value, so a lookup of any other name gives what it gave before.
\<close>

theorem onChangeTab_frame:
  "params_get TAB_PARAM (onChangeTab isTI isMTS ps i) = indexToTab i isTI isMTS \<and>
   (indexToTab i isTI isMTS = Some t \<longrightarrow>
      onChangeTab isTI isMTS ps i = params_set TAB_PARAM t ps \<and>
      filter (\<lambda>p. fst p = TAB_PARAM) (onChangeTab isTI isMTS ps i) = [(TAB_PARAM, t)]) \<and>
   (indexToTab i isTI isMTS = None \<longrightarrow>
      onChangeTab isTI isMTS ps i = params_delete TAB_PARAM ps \<and>
      filter (\<lambda>p. fst p = TAB_PARAM) (onChangeTab isTI isMTS ps i) = []) \<and>
   onChangeTab isTI isMTS ps 0 = params_delete TAB_PARAM ps \<and>
   params_get TAB_PARAM (onChangeTab isTI isMTS ps i) \<noteq> Some ''details'' \<and>
   others TAB_PARAM (onChangeTab isTI isMTS ps i) = others TAB_PARAM ps \<and>
   (k \<noteq> TAB_PARAM \<longrightarrow> params_get k (onChangeTab isTI isMTS ps i) = params_get k ps)"
proof -
  have zero: "onChangeTab isTI isMTS ps 0 = params_delete TAB_PARAM ps"
    by (simp add: onChangeTab_delete indexToTab_def)
  have no_details: "indexToTab i isTI isMTS \<noteq> Some ''details''"
    by (simp add: indexToTab_def)
  have frame: "others TAB_PARAM (onChangeTab isTI isMTS ps i) = others TAB_PARAM ps"
    by (cases "indexToTab i isTI isMTS")
      (simp_all add: onChangeTab_set onChangeTab_delete others_params_set others_params_delete)
  have other: "params_get k (onChangeTab isTI isMTS ps i) = params_get k ps"
    if "k \<noteq> TAB_PARAM"
    using that
    by (cases "indexToTab i isTI isMTS")
      (simp_all add: onChangeTab_set onChangeTab_delete params_get_set_other
        params_get_delete_other)
  show ?thesis
    using zero no_details frame other
    by (simp add: params_get_onChangeTab onChangeTab_set onChangeTab_delete named_params_set
        named_params_delete)
qed

theorem onChangeTab_frame_witness:
  "onChangeTab True False
     [(''dag_run_id'', ''r1''), (''tab'', ''xcom''), (''root'', ''a''), (''tab'', ''logs'')] 1 =
     [(''dag_run_id'', ''r1''), (''tab'', ''graph''), (''root'', ''a'')] \<and>
   onChangeTab True False
     [(''dag_run_id'', ''r1''), (''tab'', ''xcom''), (''root'', ''a''), (''tab'', ''logs'')] 0 =
     [(''dag_run_id'', ''r1''), (''root'', ''a'')] \<and>
   ''root'' \<noteq> TAB_PARAM \<and>
   params_get ''root'' (onChangeTab True False
     [(''dag_run_id'', ''r1''), (''tab'', ''xcom''), (''root'', ''a''), (''tab'', ''logs'')] 1) =
     Some ''a''"
  using onChangeTab_frame [of True False
      "[(''dag_run_id'', ''r1''), (''tab'', ''xcom''), (''root'', ''a''), (''tab'', ''logs'')]"
      1 "''graph''" "''root''"]
  by (simp add: onChangeTab_def indexToTab_def TAB_PARAM_def)

subsection \<open>The redirect effect\<close>

text \<open>
  What a call of the handler from the effect does to the state: the tab index read back
  from the query parameters is the index the effect asked for, and the parameters other
  than \<open>tab\<close> stay as they were.
\<close>

lemma tab_after_onChangeTab: "tab (onChangeTab a b ps i) = indexToTab i a b"
proof -
  have "truthy (indexToTab i a b) \<or> indexToTab i a b = None"
    by (simp add: indexToTab_def truthy_def)
  then show ?thesis
    by (auto simp: tab_def params_get_onChangeTab)
qed

lemma tabIndex_after_onChangeTab:
  "tabIndex (onChangeTab a b ps i) = tabToIndex (indexToTab i a b)"
  by (simp add: tabIndex_def tab_after_onChangeTab)

lemma runEffect_lands:
  "redirectEffect sel (isGroup grp) (tabIndex ps) = Some j \<Longrightarrow>
   tabIndex (runEffect sel grp ps) = j"
  by (auto simp: runEffect_def tabIndex_after_onChangeTab redirectEffect_def indexToTab_def
      tabToIndex_def split: if_splits)

lemma runEffect_idle:
  "redirectEffect sel (isGroup grp) (tabIndex ps) = None \<Longrightarrow> runEffect sel grp ps = ps"
  by (simp add: runEffect_def)

lemma others_runEffect: "others TAB_PARAM (runEffect sel grp ps) = others TAB_PARAM ps"
proof (cases "redirectEffect sel (isGroup grp) (tabIndex ps)")
  case None
  then show ?thesis by (simp add: runEffect_def)
next
  case (Some j)
  let ?a = "isTaskInstance sel grp" and ?b = "isMappedTaskSummary sel grp"
  have "others TAB_PARAM (onChangeTab ?a ?b ps j) = others TAB_PARAM ps"
    by (cases "indexToTab j ?a ?b")
      (simp_all add: onChangeTab_set onChangeTab_delete others_params_set others_params_delete)
  with Some show ?thesis by (simp add: runEffect_def)
qed

text \<open>
  C5. The effect counts 5 tabs when a run and a task are selected and the node is not a
  group, and 4 otherwise. With a count of 4 and a tab index above 3 it calls the handler
  with 0 when a task is selected without a run, and with 1 otherwise: the query
  parameters after the effect are those the handler leaves for that index (\<open>tab\<close>
  deleted for 0, \<open>tab\<close> set to "graph" for 1), and the tab index read from them is 0,
  respectively 1. With a count of 5, or an index of at most 3, the handler is not called
  and the query parameters are unchanged. The first three conjuncts give the decision
  for any group flag and index, the others the run of the effect on the component's
  state.
\<close>

theorem redirectEffect_cases:
  "tabCount sel isGrp =
     (if truthy (runId sel) \<and> truthy (taskId sel) \<and> \<not> isGrp then 5 else 4) \<and>
   (tabCount sel isGrp = 4 \<and> tabIdx > 3 \<longrightarrow>
      redirectEffect sel isGrp tabIdx =
        (if truthy (taskId sel) \<and> \<not> truthy (runId sel) then Some 0 else Some 1)) \<and>
   (tabCount sel isGrp = 5 \<or> tabIdx \<le> 3 \<longrightarrow> redirectEffect sel isGrp tabIdx = None) \<and>
   (tabCount sel (isGroup grp) = 4 \<and> tabIndex ps > 3 \<and>
      truthy (taskId sel) \<and> \<not> truthy (runId sel) \<longrightarrow>
      runEffect sel grp ps =
        onChangeTab (isTaskInstance sel grp) (isMappedTaskSummary sel grp) ps 0 \<and>
      runEffect sel grp ps = params_delete TAB_PARAM ps \<and>
      tabIndex (runEffect sel grp ps) = 0) \<and>
   (tabCount sel (isGroup grp) = 4 \<and> tabIndex ps > 3 \<and>
      \<not> (truthy (taskId sel) \<and> \<not> truthy (runId sel)) \<longrightarrow>
      runEffect sel grp ps =
        onChangeTab (isTaskInstance sel grp) (isMappedTaskSummary sel grp) ps 1 \<and>
      runEffect sel grp ps = params_set TAB_PARAM ''graph'' ps \<and>
      tabIndex (runEffect sel grp ps) = 1) \<and>
   (tabCount sel (isGroup grp) = 5 \<or> tabIndex ps \<le> 3 \<longrightarrow> runEffect sel grp ps = ps) \<and>
   others TAB_PARAM (runEffect sel grp ps) = others TAB_PARAM ps"
proof -
  let ?a = "isTaskInstance sel grp" and ?b = "isMappedTaskSummary sel grp"
  have decide4: "redirectEffect sel g i =
      (if truthy (taskId sel) \<and> \<not> truthy (runId sel) then Some 0 else Some 1)"
    if "tabCount sel g = 4" and "i > 3" for g i
    using that by (auto simp: redirectEffect_def)
  have decide5: "redirectEffect sel g i = None" if "tabCount sel g = 5 \<or> i \<le> 3" for g i
    using that by (auto simp: redirectEffect_def)
  have count: "tabCount sel isGrp =
     (if truthy (runId sel) \<and> truthy (taskId sel) \<and> \<not> isGrp then 5 else 4)"
    by (simp add: tabCount_def)
  have to0: "runEffect sel grp ps = onChangeTab ?a ?b ps 0 \<and>
      runEffect sel grp ps = params_delete TAB_PARAM ps \<and> tabIndex (runEffect sel grp ps) = 0"
    if "tabCount sel (isGroup grp) = 4" and "tabIndex ps > 3"
      and "truthy (taskId sel) \<and> \<not> truthy (runId sel)"
  proof -
    have r: "redirectEffect sel (isGroup grp) (tabIndex ps) = Some 0"
      using decide4 [OF that(1,2)] that(3) by simp
    have "indexToTab 0 ?a ?b = None" by (simp add: indexToTab_def)
    then have "onChangeTab ?a ?b ps 0 = params_delete TAB_PARAM ps"
      by (rule onChangeTab_delete)
    with r runEffect_lands [OF r] show ?thesis by (simp add: runEffect_def)
  qed
  have to1: "runEffect sel grp ps = onChangeTab ?a ?b ps 1 \<and>
      runEffect sel grp ps = params_set TAB_PARAM ''graph'' ps \<and>
      tabIndex (runEffect sel grp ps) = 1"
    if "tabCount sel (isGroup grp) = 4" and "tabIndex ps > 3"
      and "\<not> (truthy (taskId sel) \<and> \<not> truthy (runId sel))"
  proof -
    have r: "redirectEffect sel (isGroup grp) (tabIndex ps) = Some 1"
      using decide4 [OF that(1,2)] that(3) by simp
    have "indexToTab 1 ?a ?b = Some ''graph''" by (simp add: indexToTab_def)
    then have "onChangeTab ?a ?b ps 1 = params_set TAB_PARAM ''graph'' ps"
      by (rule onChangeTab_set)
    with r runEffect_lands [OF r] show ?thesis by (simp add: runEffect_def)
  qed
  have idle: "runEffect sel grp ps = ps"
    if "tabCount sel (isGroup grp) = 5 \<or> tabIndex ps \<le> 3"
    using decide5 [OF that] by (rule runEffect_idle)
  show ?thesis
    using count decide4 [of isGrp tabIdx] decide5 [of isGrp tabIdx] to0 to1 idle
      others_runEffect [of sel grp ps]
    by blast
qed

theorem redirectEffect_cases_witness:
  "tabIndex [(''tab'', ''xcom''), (''root'', ''a'')] = 5 \<and>
   runEffect \<lparr>runId = None, taskId = None, mapIndex = None\<rparr> None
     [(''tab'', ''xcom''), (''root'', ''a'')] = [(''tab'', ''graph''), (''root'', ''a'')] \<and>
   tabIndex (runEffect \<lparr>runId = None, taskId = None, mapIndex = None\<rparr> None
     [(''tab'', ''xcom''), (''root'', ''a'')]) = 1 \<and>
   runEffect \<lparr>runId = None, taskId = Some ''t1'', mapIndex = None\<rparr> (Some (Task None None []))
     [(''tab'', ''xcom''), (''root'', ''a'')] = [(''root'', ''a'')] \<and>
   tabIndex (runEffect \<lparr>runId = None, taskId = Some ''t1'', mapIndex = None\<rparr>
     (Some (Task None None [])) [(''tab'', ''xcom''), (''root'', ''a'')]) = 0 \<and>
   runEffect \<lparr>runId = Some ''r1'', taskId = Some ''t1'', mapIndex = None\<rparr>
     (Some (Task None None [])) [(''tab'', ''xcom''), (''root'', ''a'')] =
     [(''tab'', ''xcom''), (''root'', ''a'')] \<and>
   runEffect \<lparr>runId = Some ''r1'', taskId = Some ''t1'', mapIndex = None\<rparr>
     (Some (Task (Some []) None [])) [(''tab'', ''code''), (''root'', ''a'')] =
     [(''tab'', ''code''), (''root'', ''a'')] \<and>
   redirectEffect \<lparr>runId = None, taskId = None, mapIndex = None\<rparr> False 5 = Some 1 \<and>
   redirectEffect \<lparr>runId = None, taskId = Some ''t1'', mapIndex = None\<rparr> False 5 = Some 0 \<and>
   redirectEffect \<lparr>runId = Some ''r1'', taskId = Some ''t1'', mapIndex = None\<rparr> False 5 = None"
proof -
  let ?ps = "[(''tab'', ''xcom''), (''root'', ''a'')]"
  let ?qs = "[(''tab'', ''code''), (''root'', ''a'')]"
  let ?leaf = "Some (Task None None [])"
  let ?dag = "\<lparr>runId = None, taskId = None, mapIndex = None\<rparr>"
  let ?tsk = "\<lparr>runId = None, taskId = Some ''t1'', mapIndex = None\<rparr>"
  let ?ti = "\<lparr>runId = Some ''r1'', taskId = Some ''t1'', mapIndex = None\<rparr>"
  show ?thesis
    using redirectEffect_cases [of ?dag False 5 None ?ps]
      redirectEffect_cases [of ?tsk False 5 ?leaf ?ps]
      redirectEffect_cases [of ?ti False 5 ?leaf ?ps]
      redirectEffect_cases [of ?ti False 5 "Some (Task (Some []) None [])" ?qs]
    by (simp add: TAB_PARAM_def tabIndex_def tab_def truthy_def tabToIndex_def isGroup_def
        group_children_def tabCount_def onChangeTab_def indexToTab_def)
qed

text \<open>After one run the effect has nothing left to do.\<close>

lemma runEffect_settles:
  "redirectEffect sel (isGroup grp) (tabIndex (runEffect sel grp ps)) = None"
proof (cases "redirectEffect sel (isGroup grp) (tabIndex ps)")
  case None
  then show ?thesis by (simp add: runEffect_idle)
next
  case (Some j)
  then have "j \<le> 3" by (auto simp: redirectEffect_def split: if_splits)
  with runEffect_lands [OF Some] show ?thesis by (simp add: redirectEffect_def)
qed

subsection \<open>The state handed to the children\<close>

text \<open>
  C8. \<open>Logs\<close> and \<open>MarkInstanceAs\<close> receive the same state. It is unset when the state is
  missing (there is no instance, the instance has no state, or the state is the empty
  string, which \<open>!\<close> treats like an absent one and which is not the name of a task state)
  and when the state is "none"; otherwise it is the instance's state. No input makes the
  expression throw: the unguarded read \<open>instance.state\<close> is reached only when the
  instance exists.
\<close>

theorem state_normalised:
  "markInstanceAsState inst = logsState inst \<and>
   (\<forall>e. logsState inst \<noteq> Inl e) \<and>
   (inst = None \<longrightarrow> logsState inst = Inr None) \<and>
   (inst = Some ti \<and> ti_state ti = None \<longrightarrow> logsState inst = Inr None) \<and>
   (inst = Some ti \<and> ti_state ti = Some [] \<longrightarrow> logsState inst = Inr None) \<and>
   (inst = Some ti \<and> ti_state ti = Some ''none'' \<longrightarrow> logsState inst = Inr None) \<and>
   (inst = Some ti \<and> ti_state ti = Some s \<and> s \<noteq> [] \<and> s \<noteq> ''none'' \<longrightarrow>
      logsState inst = Inr (Some s))"
  by (cases inst)
    (auto simp: logsState_def markInstanceAsState_def optState_def dotState_def truthy_def
      split: option.splits)

theorem state_normalised_witness:
  "logsState None = Inr None \<and>
   logsState (Some \<lparr>ti_runId = ''r1'', ti_state = None, tryNumber = Some 1\<rparr>) = Inr None \<and>
   logsState (Some \<lparr>ti_runId = ''r1'', ti_state = Some [], tryNumber = Some 1\<rparr>) = Inr None \<and>
   logsState (Some \<lparr>ti_runId = ''r1'', ti_state = Some ''none'', tryNumber = Some 1\<rparr>) = Inr None \<and>
   logsState (Some \<lparr>ti_runId = ''r1'', ti_state = Some ''failed'', tryNumber = Some 1\<rparr>) =
     Inr (Some ''failed'') \<and>
   markInstanceAsState (Some \<lparr>ti_runId = ''r1'', ti_state = Some ''failed'', tryNumber = Some 1\<rparr>) =
     Inr (Some ''failed'')"
  using state_normalised
      [of None "\<lparr>ti_runId = ''r1'', ti_state = None, tryNumber = Some 1\<rparr>" "''failed''"]
    state_normalised [of "Some \<lparr>ti_runId = ''r1'', ti_state = None, tryNumber = Some 1\<rparr>"
      "\<lparr>ti_runId = ''r1'', ti_state = None, tryNumber = Some 1\<rparr>" "''failed''"]
    state_normalised [of "Some \<lparr>ti_runId = ''r1'', ti_state = Some [], tryNumber = Some 1\<rparr>"
      "\<lparr>ti_runId = ''r1'', ti_state = Some [], tryNumber = Some 1\<rparr>" "''failed''"]
    state_normalised
      [of "Some \<lparr>ti_runId = ''r1'', ti_state = Some ''none'', tryNumber = Some 1\<rparr>"
      "\<lparr>ti_runId = ''r1'', ti_state = Some ''none'', tryNumber = Some 1\<rparr>" "''failed''"]
    state_normalised
      [of "Some \<lparr>ti_runId = ''r1'', ti_state = Some ''failed'', tryNumber = Some 1\<rparr>"
      "\<lparr>ti_runId = ''r1'', ti_state = Some ''failed'', tryNumber = Some 1\<rparr>" "''failed''"]
  by simp

subsection \<open>The instance that is shown\<close>

lemma groupInstance_from_list:
  "groupInstance sel grp = Some ti \<Longrightarrow>
   (\<exists>g. grp = Some g \<and> ti \<in> set (instances g)) \<and> Some (ti_runId ti) = runId sel"
  by (cases grp) (auto simp: groupInstance_def find_Some_iff)

text \<open>
  C10. With a run and a task selected, a node that is not a group and a map index that
  is defined but not above -1, the view is a task instance, and the instance shown
  (hence the state and the try number handed to \<open>Logs\<close>) is the one found in the node's
  own list for the run, whatever the fetch returned, although the fetch is enabled. The
  fetched instance is the one shown exactly when the map index is above -1; the fetch is
  enabled exactly when a map index is defined. An instance taken from the node is a member
  of the node's list and belongs to the selected run.
\<close>

theorem negative_mapIndex_instance:
  "(truthy (runId sel) \<and> truthy (taskId sel) \<and> \<not> isGroup grp \<and>
      mapIndex sel = Some m \<and> \<not> m > - 1 \<longrightarrow>
      isTaskInstance sel grp \<and>
      selectedInstance sel grp fetched = groupInstance sel grp \<and>
      logsState (selectedInstance sel grp fetched) = logsState (groupInstance sel grp) \<and>
      optTryNumber (selectedInstance sel grp fetched) = optTryNumber (groupInstance sel grp) \<and>
      enabled (useTaskInstanceArgs sel)) \<and>
   (mapIndex sel = Some m \<and> m > - 1 \<longrightarrow> selectedInstance sel grp fetched = fetched) \<and>
   (mapIndex sel = None \<longrightarrow> selectedInstance sel grp fetched = groupInstance sel grp) \<and>
   enabled (useTaskInstanceArgs sel) = (mapIndex sel \<noteq> None) \<and>
   (groupInstance sel grp = Some ti \<longrightarrow>
      (\<exists>g. grp = Some g \<and> ti \<in> set (instances g)) \<and> Some (ti_runId ti) = runId sel)"
  using groupInstance_from_list [of sel grp ti]
  by (auto simp: selectedInstance_def isTaskInstance_def isMappedTaskSummary_def
      useTaskInstanceArgs_def)

theorem negative_mapIndex_instance_witness:
  "isTaskInstance \<lparr>runId = Some ''r1'', taskId = Some ''t1'', mapIndex = Some (- 1)\<rparr>
     (Some (Task None (Some True)
        [\<lparr>ti_runId = ''r0'', ti_state = Some ''success'', tryNumber = Some 1\<rparr>,
         \<lparr>ti_runId = ''r1'', ti_state = Some ''failed'', tryNumber = Some 2\<rparr>])) \<and>
   selectedInstance \<lparr>runId = Some ''r1'', taskId = Some ''t1'', mapIndex = Some (- 1)\<rparr>
     (Some (Task None (Some True)
        [\<lparr>ti_runId = ''r0'', ti_state = Some ''success'', tryNumber = Some 1\<rparr>,
         \<lparr>ti_runId = ''r1'', ti_state = Some ''failed'', tryNumber = Some 2\<rparr>]))
     (Some \<lparr>ti_runId = ''r1'', ti_state = Some ''running'', tryNumber = Some 3\<rparr>) =
     Some \<lparr>ti_runId = ''r1'', ti_state = Some ''failed'', tryNumber = Some 2\<rparr> \<and>
   enabled (useTaskInstanceArgs \<lparr>runId = Some ''r1'', taskId = Some ''t1'', mapIndex = Some (- 1)\<rparr>)"
  using negative_mapIndex_instance
    [of "\<lparr>runId = Some ''r1'', taskId = Some ''t1'', mapIndex = Some (- 1)\<rparr>"
      "Some (Task None (Some True)
        [\<lparr>ti_runId = ''r0'', ti_state = Some ''success'', tryNumber = Some 1\<rparr>,
         \<lparr>ti_runId = ''r1'', ti_state = Some ''failed'', tryNumber = Some 2\<rparr>])"
      "- 1"
      "Some \<lparr>ti_runId = ''r1'', ti_state = Some ''running'', tryNumber = Some 3\<rparr>"
      "\<lparr>ti_runId = ''r1'', ti_state = Some ''failed'', tryNumber = Some 2\<rparr>"]
  by (simp add: truthy_def isGroup_def group_children_def groupInstance_def)

end
